theory Spec2Isabelle
  imports Complex_Main "HOL-Library.Char_ord" "HOL-Library.List_Lexorder"
    "HOL-Library.Product_Lexorder"
begin

section \<open>Floating-point values\<close>

text \<open>
  The numbers of the program are Python and NumPy floats.  Finite values are modelled as
  exact reals (no rounding, no overflow, no negative zero); the three special values of
  IEEE arithmetic are kept, because NumPy division by zero does not raise: it returns
  \<open>nan\<close> for \<open>0 / 0\<close> and a signed infinity for \<open>x / 0\<close>.  The values delivered by the
  two data sources (prices, market capitalisations, benchmark quotes) are finite, so they
  have type \<open>real\<close>; derived columns have type \<open>pyfloat\<close>.
\<close>

datatype pyfloat = Finite real | PosInf | NegInf | NaN

definition is_finite :: "pyfloat \<Rightarrow> bool" where
  "is_finite x = (case x of Finite _ \<Rightarrow> True | _ \<Rightarrow> False)"

text \<open>\<open>a / b\<close> on two finite floats (NumPy true division).\<close>

definition py_truediv :: "real \<Rightarrow> real \<Rightarrow> pyfloat" where
  "py_truediv a b =
     (if b \<noteq> 0 then Finite (a / b)
      else if a = 0 then NaN
      else if 0 < a then PosInf
      else NegInf)"

fun fneg :: "pyfloat \<Rightarrow> pyfloat" where
  "fneg (Finite a) = Finite (- a)"
| "fneg PosInf = NegInf"
| "fneg NegInf = PosInf"
| "fneg NaN = NaN"

fun fadd :: "pyfloat \<Rightarrow> pyfloat \<Rightarrow> pyfloat" where
  "fadd NaN _ = NaN"
| "fadd _ NaN = NaN"
| "fadd (Finite a) (Finite b) = Finite (a + b)"
| "fadd PosInf NegInf = NaN"
| "fadd NegInf PosInf = NaN"
| "fadd PosInf _ = PosInf"
| "fadd NegInf _ = NegInf"
| "fadd (Finite _) y = y"

definition fsub :: "pyfloat \<Rightarrow> pyfloat \<Rightarrow> pyfloat" where
  "fsub x y = fadd x (fneg y)"

text \<open>The sign of a non-NaN value: \<open>-1\<close>, \<open>0\<close> or \<open>1\<close>.\<close>

fun fsign :: "pyfloat \<Rightarrow> int" where
  "fsign (Finite a) = (if a = 0 then 0 else if 0 < a then 1 else - 1)"
| "fsign PosInf = 1"
| "fsign NegInf = - 1"
| "fsign NaN = 0"

fun fmul :: "pyfloat \<Rightarrow> pyfloat \<Rightarrow> pyfloat" where
  "fmul NaN _ = NaN"
| "fmul _ NaN = NaN"
| "fmul (Finite a) (Finite b) = Finite (a * b)"
| "fmul x y =
     (let s = fsign x * fsign y
      in if s = 0 then NaN else if 0 < s then PosInf else NegInf)"

text \<open>
  \<open>Series.sum()\<close> and the group-by aggregation \<open>'sum'\<close> of pandas skip missing values
  (\<open>skipna=True\<close>, \<open>min_count=0\<close>): \<open>nan\<close> entries are left out, and a group with no other
  entry sums to \<open>0.0\<close>.
\<close>

definition isna :: "pyfloat \<Rightarrow> bool" where
  "isna x = (x = NaN)"

definition nansum :: "pyfloat list \<Rightarrow> pyfloat" where
  "nansum xs = foldl fadd (Finite 0) (filter (\<lambda>x. \<not> isna x) xs)"


section \<open>Errors\<close>

text \<open>
  Every \<open>raise\<close> of the program and of the library calls it makes is a value.  The
  program defines no exception class of its own and catches nothing.
\<close>

datatype error =
    RetrievalError      \<comment> \<open>the HTTP call failed, or the answer is not JSON\<close>
  | KeyError            \<comment> \<open>a missing dictionary key or table column\<close>
  | ValueError          \<comment> \<open>\<open>utcfromtimestamp\<close>: year out of range; an unparsable date\<close>
  | OutOfBoundsDatetime \<comment> \<open>\<open>pd.to_datetime\<close>: outside the nanosecond range\<close>
  | AttributeError      \<comment> \<open>the date range of an empty table is \<open>nan\<close>\<close>

section \<open>The calendar\<close>

text \<open>
  \<open>datetime.datetime.utcfromtimestamp(s).strftime('%Y-%m-%d')\<close>.  The standard library
  turns a day count into year, month and day of the proleptic Gregorian calendar; the
  definitions below follow \<open>_ord2ymd\<close> and \<open>_ymd2ord\<close> of \<open>datetime.py\<close>, on ordinals
  where day 1 is 0001-01-01.  The day 1970-01-01 is ordinal 719163.
\<close>

definition DI400Y :: int where "DI400Y = 146097"
definition DI100Y :: int where "DI100Y = 36524"
definition DI4Y :: int where "DI4Y = 1461"
definition EPOCH_ORD :: int where "EPOCH_ORD = 719163"
definition MAX_ORD :: int where "MAX_ORD = 3652059"

definition is_leap :: "int \<Rightarrow> bool" where
  "is_leap y = (y mod 4 = 0 \<and> (y mod 100 \<noteq> 0 \<or> y mod 400 = 0))"

definition DAYS_IN_MONTH :: "int list" where
  "DAYS_IN_MONTH = [0, 31, 28, 31, 30, 31, 30, 31, 31, 30, 31, 30, 31]"

definition DAYS_BEFORE_MONTH :: "int list" where
  "DAYS_BEFORE_MONTH = [0, 0, 31, 59, 90, 120, 151, 181, 212, 243, 273, 304, 334]"

definition days_in_month :: "int \<Rightarrow> int \<Rightarrow> int" where
  "days_in_month y m = (if m = 2 \<and> is_leap y then 29 else DAYS_IN_MONTH ! nat m)"

definition days_before_month :: "int \<Rightarrow> int \<Rightarrow> int" where
  "days_before_month y m =
     DAYS_BEFORE_MONTH ! nat m + (if 2 < m \<and> is_leap y then 1 else 0)"

definition days_before_year :: "int \<Rightarrow> int" where
  "days_before_year y = (y - 1) * 365 + (y - 1) div 4 - (y - 1) div 100 + (y - 1) div 400"

type_synonym ymd = "int \<times> int \<times> int"

text \<open>The month and the day of day \<open>n\<close> of a year, counted from 0.\<close>

definition month_day :: "bool \<Rightarrow> int \<Rightarrow> int \<times> int" where
  "month_day leapyear n =
     (let month = (n + 50) div 32;
          preceding = DAYS_BEFORE_MONTH ! nat month
                      + (if 2 < month \<and> leapyear then 1 else 0)
      in if n < preceding
         then
           let month = month - 1;
               preceding = preceding
                 - (DAYS_IN_MONTH ! nat month + (if month = 2 \<and> leapyear then 1 else 0))
           in (month, n - preceding + 1)
         else (month, n - preceding + 1))"

definition ord2ymd :: "int \<Rightarrow> ymd" where
  "ord2ymd n0 =
     (let n = n0 - 1;
          n400 = n div DI400Y; n = n mod DI400Y;
          year = n400 * 400 + 1;
          n100 = n div DI100Y; n = n mod DI100Y;
          n4 = n div DI4Y; n = n mod DI4Y;
          n1 = n div 365; n = n mod 365;
          year = year + n100 * 100 + n4 * 4 + n1
      in if n1 = 4 \<or> n100 = 4 then (year - 1, 12, 31)
         else
           let leapyear = (n1 = 3 \<and> (n4 \<noteq> 24 \<or> n100 = 3))
           in (case month_day leapyear n of (month, day) \<Rightarrow> (year, month, day)))"

definition ymd2ord :: "ymd \<Rightarrow> int" where
  "ymd2ord d = (case d of (y, m, dd) \<Rightarrow> days_before_year y + days_before_month y m + dd)"

definition valid_ymd :: "ymd \<Rightarrow> bool" where
  "valid_ymd d = (case d of (y, m, dd) \<Rightarrow>
     1 \<le> y \<and> y \<le> 9999 \<and> 1 \<le> m \<and> m \<le> 12 \<and> 1 \<le> dd \<and> dd \<le> days_in_month y m)"


text \<open>Decimal digits and zero-padded fields, as \<open>%Y\<close>, \<open>%m\<close> and \<open>%d\<close> print them.\<close>

definition digit_char :: "int \<Rightarrow> char" where
  "digit_char d = ''0123456789'' ! nat d"

definition pad2 :: "int \<Rightarrow> string" where
  "pad2 n = [digit_char (n div 10 mod 10), digit_char (n mod 10)]"

definition pad4 :: "int \<Rightarrow> string" where
  "pad4 n = [digit_char (n div 1000 mod 10), digit_char (n div 100 mod 10),
             digit_char (n div 10 mod 10), digit_char (n mod 10)]"

definition strftime_ymd :: "ymd \<Rightarrow> string" where
  "strftime_ymd d = (case d of (y, m, dd) \<Rightarrow> pad4 y @ ''-'' @ pad2 m @ ''-'' @ pad2 dd)"

text \<open>
  \<open>convert_timestamp(timestamp)\<close>: the argument is an integer number of milliseconds.
  \<open>timestamp / 1000\<close> is a float of seconds, and \<open>utcfromtimestamp\<close> rounds it to
  microseconds; for the years a \<open>datetime\<close> can hold the calendar day is the floor of
  \<open>timestamp / 86400000\<close>.  A \<open>datetime\<close> holds the years 1 to 9999 only:
  \<open>utcfromtimestamp\<close> raises outside of them (\<open>ValueError\<close>, year out of range; further
  out \<open>OverflowError\<close> or \<open>OSError\<close>, which the model does not tell apart).  Negative
  arguments are accepted, as on POSIX platforms, and \<open>%Y\<close> prints four digits.
\<close>

definition convert_timestamp :: "int \<Rightarrow> error + string" where
  "convert_timestamp timestamp =
     (let ordinal = timestamp div 86400000 + EPOCH_ORD
      in if ordinal < 1 \<or> MAX_ORD < ordinal then Inl ValueError
         else Inr (strftime_ymd (ord2ymd ordinal)))"

section \<open>Tables\<close>

text \<open>
  What the crypto data source answers for one asset: two sequences of
  \<open>[timestamp, value]\<close> pairs under the keys \<open>'prices'\<close> and \<open>'market_caps'\<close>.
\<close>

record coin_data =
  prices :: "(int \<times> real) list"
  market_caps :: "(int \<times> real) list"

text \<open>
  The \<open>date\<close> column of \<open>self.df\<close> holds the strings of \<open>convert_timestamp\<close> after
  \<open>data_transform\<close>, and pandas timestamps after \<open>nasdaq_data_transform\<close> has run
  \<open>pd.to_datetime\<close> on it.  Every timestamp of the program is a midnight, so a timestamp
  is modelled by its day number (days since 1970-01-01).
\<close>

datatype date_cell = DateStr string | Timestamp int

text \<open>
  A row of the table \<open>df\<close>: the columns \<open>date\<close>, \<open>price\<close>, \<open>market_cap\<close>, \<open>id\<close>,
  \<open>weight\<close> and \<open>index\<close>.  A table is the list of its rows, in index order.  A cell of
  a column that an assignment through \<open>df.loc\<close> has not reached yet is \<open>nan\<close>.
\<close>

record 'd index_row =
  date :: 'd
  price :: real
  market_cap :: real
  coin_id :: string
  weight :: pyfloat
  index :: pyfloat

text \<open>A row of the benchmark table (\<open>Ticker.history\<close> after \<open>reset_index\<close>).\<close>

record nasdaq_row =
  Date :: int
  Open :: real
  High :: real
  Low :: real
  Close :: real
  Volume :: real

text \<open>
  A row of \<open>merged_df\<close>: the columns of the index table, the benchmark row joined to
  it (its columns, under \<open>nasdaq\<close>), and the two derived columns.
\<close>

record 'd merged_row = "'d index_row" +
  nasdaq :: nasdaq_row
  price_pct_change :: pyfloat
  metric :: pyfloat

text \<open>The two tables the object keeps, and its key.\<close>

record crypto =
  df :: "date_cell index_row list"
  merged_df :: "int merged_row list"
  API_key :: string

section \<open>The index builder: \<open>data_transform\<close>\<close>

text \<open>
  The inner loop \<open>for price, market_cap in zip(prices, market_caps)\<close>: one row per pair,
  the date from the price's timestamp; \<open>zip\<close> stops at the end of the shorter sequence.
\<close>

fun zip_rows :: "string \<Rightarrow> ((int \<times> real) \<times> (int \<times> real)) list
    \<Rightarrow> error + date_cell index_row list" where
  "zip_rows cid [] = Inr []"
| "zip_rows cid ((p, mc) # rest) =
     (case convert_timestamp (fst p) of
        Inl e \<Rightarrow> Inl e
      | Inr d \<Rightarrow>
          (case zip_rows cid rest of
             Inl e \<Rightarrow> Inl e
           | Inr rows \<Rightarrow>
               Inr (\<lparr>date = DateStr d, price = snd p, market_cap = snd mc,
                     coin_id = cid, weight = NaN, index = NaN\<rparr> # rows)))"

text \<open>
  The outer loop \<open>for id in ids\<close>.  The download is a parameter: what
  \<open>coingekko_download(id=id, days=days)\<close> returns or raises; a missing key
  \<open>'prices'\<close> or \<open>'market_caps'\<close> of the answer is one of its errors.
\<close>

fun collect_rows :: "(string \<Rightarrow> string option \<Rightarrow> error + coin_data) \<Rightarrow> string option
    \<Rightarrow> string list \<Rightarrow> error + date_cell index_row list" where
  "collect_rows coingekko_download days [] = Inr []"
| "collect_rows coingekko_download days (cid # ids) =
     (case coingekko_download cid days of
        Inl e \<Rightarrow> Inl e
      | Inr coin \<Rightarrow>
          (case zip_rows cid (zip (prices coin) (market_caps coin)) of
             Inl e \<Rightarrow> Inl e
           | Inr rows \<Rightarrow>
               (case collect_rows coingekko_download days ids of
                  Inl e \<Rightarrow> Inl e
                | Inr others \<Rightarrow> Inr (rows @ others))))"

text \<open>\<open>Series.unique()\<close>: the distinct values in order of first appearance.\<close>

definition unique :: "'a list \<Rightarrow> 'a list" where
  "unique xs = rev (remdups (rev xs))"

text \<open>\<open>df[df['date'] == date]['market_cap'].sum()\<close>\<close>

definition total_market_cap :: "'d \<Rightarrow> 'd index_row list \<Rightarrow> real" where
  "total_market_cap d rows = sum_list (map market_cap (filter (\<lambda>row. date row = d) rows))"

text \<open>
  The body of \<open>for date in df['date'].unique()\<close>: every row of that date gets its weight
  and index value; the other rows are left as they are.
\<close>

definition assign_weights :: "'d \<Rightarrow> 'd index_row list \<Rightarrow> 'd index_row list" where
  "assign_weights d rows =
     (let total = total_market_cap d rows
      in map (\<lambda>row.
            if date row = d
            then (let w = py_truediv (market_cap row) total;
                      index_value = fmul w (Finite (price row))
                  in row\<lparr>weight := w, index := index_value\<rparr>)
            else row) rows)"

definition compute_weights :: "'d index_row list \<Rightarrow> 'd index_row list" where
  "compute_weights rows = fold assign_weights (unique (map date rows)) rows"

text \<open>
  \<open>data_transform(ids, days)\<close> returns the table and stores it in \<open>self.df\<close>; an exception
  leaves the object as it was.
\<close>

definition data_transform ::
  "(string \<Rightarrow> string option \<Rightarrow> error + coin_data) \<Rightarrow> string list \<Rightarrow> string option
    \<Rightarrow> crypto \<Rightarrow> (error + date_cell index_row list) \<times> crypto" where
  "data_transform coingekko_download ids days self =
     (case collect_rows coingekko_download days ids of
        Inl e \<Rightarrow> (Inl e, self)
      | Inr rows \<Rightarrow>
          (let table = compute_weights rows
           in (Inr table, self\<lparr>df := table\<rparr>)))"

text \<open>The rows of one date, and the dates of a table.\<close>

definition rows_of_date :: "'d \<Rightarrow> ('d, 'a) index_row_scheme list \<Rightarrow> ('d, 'a) index_row_scheme list" where
  "rows_of_date d rows = filter (\<lambda>row. date row = d) rows"

section \<open>The series merger: \<open>nasdaq_data_transform\<close>\<close>

text \<open>
  \<open>pd.to_datetime\<close> on a cell of the \<open>date\<close> column.  A timestamp stays as it is.  A
  string is parsed; the strings of the column are those of \<open>convert_timestamp\<close>, so only
  the shape \<open>YYYY-MM-DD\<close> is modelled, and any other string is rejected.  Timestamps have
  nanosecond resolution: the midnights they can hold are those of the days \<open>-106751\<close>
  (1677-09-22) to \<open>106751\<close> (2262-04-11), and \<open>pd.to_datetime\<close> raises
  \<open>OutOfBoundsDatetime\<close> for any other day.
\<close>

definition is_digit :: "char \<Rightarrow> bool" where
  "is_digit c = (c \<in> set ''0123456789'')"

definition digit_val :: "char \<Rightarrow> int" where
  "digit_val c = int (of_char c) - 48"

definition parse_ymd :: "string \<Rightarrow> ymd option" where
  "parse_ymd s =
     (case s of
        [y1, y2, y3, y4, s1, m1, m2, s2, d1, d2] \<Rightarrow>
          if list_all is_digit [y1, y2, y3, y4, m1, m2, d1, d2] \<and> s1 = CHR ''-'' \<and> s2 = CHR ''-''
          then Some (digit_val y1 * 1000 + digit_val y2 * 100 + digit_val y3 * 10 + digit_val y4,
                     digit_val m1 * 10 + digit_val m2,
                     digit_val d1 * 10 + digit_val d2)
          else None
      | _ \<Rightarrow> None)"

definition TS_MIN_DAY :: int where "TS_MIN_DAY = - 106751"
definition TS_MAX_DAY :: int where "TS_MAX_DAY = 106751"

definition to_datetime :: "date_cell \<Rightarrow> error + int" where
  "to_datetime c =
     (case c of
        Timestamp t \<Rightarrow> Inr t
      | DateStr s \<Rightarrow>
          (case parse_ymd s of
             None \<Rightarrow> Inl ValueError
           | Some d \<Rightarrow>
               if \<not> valid_ymd d then Inl ValueError
               else let t = ymd2ord d - EPOCH_ORD
                    in if t < TS_MIN_DAY \<or> TS_MAX_DAY < t then Inl OutOfBoundsDatetime
                       else Inr t))"

text \<open>\<open>pd.to_datetime\<close> on a whole column: the first cell that fails raises.\<close>

fun to_datetime_col :: "date_cell list \<Rightarrow> error + int list" where
  "to_datetime_col [] = Inr []"
| "to_datetime_col (c # cs) =
     (case to_datetime c of
        Inl e \<Rightarrow> Inl e
      | Inr t \<Rightarrow> (case to_datetime_col cs of Inl e \<Rightarrow> Inl e | Inr ts \<Rightarrow> Inr (t # ts)))"

text \<open>A row with its \<open>date\<close> cell replaced.\<close>

definition with_date :: "'a index_row \<Rightarrow> 'b \<Rightarrow> 'b index_row" where
  "with_date row d =
     \<lparr>date = d, price = price row, market_cap = market_cap row, coin_id = coin_id row,
      weight = weight row, index = index row\<rparr>"

text \<open>
  \<open>yahoo_download(start_date, end_date)\<close>: \<open>Ticker("^IXIC").history(start=..., end=...)\<close>
  is a parameter, what the call returns or raises.  \<open>tz_localize(None)\<close> drops the time
  zone of the index and keeps the calendar day.
\<close>

definition yahoo_download ::
  "(date_cell \<Rightarrow> date_cell \<Rightarrow> error + nasdaq_row list) \<Rightarrow> date_cell \<Rightarrow> date_cell
    \<Rightarrow> error + nasdaq_row list" where
  "yahoo_download history start_date end_date =
     (case history start_date end_date of
        Inl e \<Rightarrow> Inl e
      | Inr nasdaq_data \<Rightarrow> Inr nasdaq_data)"

text \<open>
  \<open>pd.merge(self.df, nasdaq_data, left_on='date', right_on='Date', how='inner')\<close>:
  every pair of a left and a right row with equal keys, in the order of the left rows.
  The two derived columns do not exist yet.
\<close>

definition join_row :: "'d index_row \<Rightarrow> nasdaq_row \<Rightarrow> 'd merged_row" where
  "join_row row b =
     \<lparr>date = date row, price = price row, market_cap = market_cap row, coin_id = coin_id row,
      weight = weight row, index = index row,
      nasdaq = b, price_pct_change = NaN, metric = NaN\<rparr>"

definition merge_inner :: "int index_row list \<Rightarrow> nasdaq_row list \<Rightarrow> int merged_row list" where
  "merge_inner left right =
     concat (map (\<lambda>row. map (join_row row) (filter (\<lambda>b. Date b = date row) right)) left)"

text \<open>
  \<open>sort_values(by=['id', 'date'])\<close>: ascending by asset, then by date; rows with equal
  keys keep their order.  Strings compare character by character.
\<close>

definition sort_values_id_date :: "int merged_row list \<Rightarrow> int merged_row list" where
  "sort_values_id_date rows = sort_key (\<lambda>row. (coin_id row, date row)) rows"

text \<open>
  \<open>groupby('id')['price'].pct_change()\<close>: each value divided by the previous value of
  the same group, minus one; \<open>nan\<close> on the first row of a group.  \<open>prev\<close> holds the last
  value seen of each group.
\<close>

fun pct_change :: "(string \<rightharpoonup> real) \<Rightarrow> (string \<times> real) list \<Rightarrow> pyfloat list" where
  "pct_change prev [] = []"
| "pct_change prev ((g, x) # rest) =
     (case prev g of
        None \<Rightarrow> NaN
      | Some y \<Rightarrow> fsub (py_truediv x y) (Finite 1))
     # pct_change (prev(g \<mapsto> x)) rest"

definition set_price_pct_change :: "int merged_row list \<Rightarrow> int merged_row list" where
  "set_price_pct_change rows =
     map2 (\<lambda>row c. row\<lparr>price_pct_change := fmul c (Finite 100)\<rparr>) rows
       (pct_change Map.empty (map (\<lambda>row. (coin_id row, price row)) rows))"

definition set_metric :: "int merged_row list \<Rightarrow> int merged_row list" where
  "set_metric rows =
     map (\<lambda>row. row\<lparr>metric := fmul (price_pct_change row) (weight row)\<rparr>) rows"

text \<open>
  \<open>nasdaq_data_transform(start_date, end_date)\<close>.  The download comes first; then the
  \<open>date\<close> column of \<open>self.df\<close> is rewritten in place, and \<open>self.merged_df\<close> is assigned
  step by step.  A table \<open>self.df\<close> without rows has no column \<open>weight\<close> (no assignment
  of \<open>data_transform\<close> has created it): the last step raises \<open>KeyError\<close>, after
  \<open>self.merged_df\<close> has been assigned the empty join.
\<close>

definition nasdaq_data_transform ::
  "(date_cell \<Rightarrow> date_cell \<Rightarrow> error + nasdaq_row list) \<Rightarrow> date_cell \<Rightarrow> date_cell
    \<Rightarrow> crypto \<Rightarrow> (error + int merged_row list) \<times> crypto" where
  "nasdaq_data_transform history start_date end_date self =
     (case yahoo_download history start_date end_date of
        Inl e \<Rightarrow> (Inl e, self)
      | Inr nasdaq_data \<Rightarrow>
          (case to_datetime_col (map date (df self)) of
             Inl e \<Rightarrow> (Inl e, self)
           | Inr ts \<Rightarrow>
               (let self = self\<lparr>df := map2 (\<lambda>row t. with_date row (Timestamp t)) (df self) ts\<rparr>;
                    merged = merge_inner (map2 with_date (df self) ts) nasdaq_data;
                    merged = sort_values_id_date merged;
                    merged = set_price_pct_change merged
                in if df self = [] then (Inl KeyError, self\<lparr>merged_df := merged\<rparr>)
                   else (let merged = set_metric merged
                         in (Inr merged, self\<lparr>merged_df := merged\<rparr>)))))"

section \<open>The presenter: \<open>comparison_graph\<close>\<close>

text \<open>What the program prints, draws and writes.\<close>

datatype effect =
    Print string
  | Show "(int \<times> pyfloat \<times> pyfloat) list"
      \<comment> \<open>\<open>plt.show()\<close> of the two plotted series: date, left value, right value\<close>
  | To_csv "int merged_row list"

text \<open>The keys of \<open>groupby('date')\<close>: the distinct dates, ascending.\<close>

definition group_keys :: "int list \<Rightarrow> int list" where
  "group_keys ds = sort (remdups ds)"

text \<open>\<open>drop_duplicates(subset='date')\<close> keeps the first row of every date.\<close>

fun drop_duplicates :: "int list \<Rightarrow> (int \<times> pyfloat \<times> pyfloat) list
    \<Rightarrow> (int \<times> pyfloat \<times> pyfloat) list" where
  "drop_duplicates seen [] = []"
| "drop_duplicates seen (r # rs) =
     (if fst r \<in> set seen then drop_duplicates seen rs
      else r # drop_duplicates (fst r # seen) rs)"

text \<open>
  \<open>comparison_graph(id, left_metric, right_metric)\<close>.  The two metrics are columns of
  \<open>merged_df\<close>, given here by their accessors; the defaults are \<open>metric\<close> and \<open>Close\<close>.
  \<open>pd.to_datetime(...).dt.date\<close> turns a midnight into its day.  The object is returned
  as it is: the filtered table is a copy.
\<close>

definition comparison_graph ::
  "string \<Rightarrow> (int merged_row \<Rightarrow> pyfloat) \<Rightarrow> (int merged_row \<Rightarrow> pyfloat) \<Rightarrow> crypto
    \<Rightarrow> effect list \<times> crypto" where
  "comparison_graph cid left_metric right_metric self =
     (if merged_df self = []
      then ([Print ''No merged data available. Please run data_transform first.''], self)
      else
        (let filter_df = filter (\<lambda>row. coin_id row = cid) (merged_df self);
             filter_df = sort_key date filter_df;
             grouped = map (\<lambda>d. (d,
                              nansum (map left_metric (rows_of_date d filter_df)),
                              nansum (map right_metric (rows_of_date d filter_df))))
                         (group_keys (map date filter_df));
             plotted = drop_duplicates [] grouped
         in ([Show plotted], self)))"

text \<open>The default columns of the chart.\<close>

definition Close_col :: "int merged_row \<Rightarrow> pyfloat" where
  "Close_col row = Finite (Close (nasdaq row))"

section \<open>The pipeline: \<open>run_script\<close>\<close>

text \<open>
  \<open>Series.min()\<close> and \<open>Series.max()\<close> of the \<open>date\<close> column.  The column holds strings
  or timestamps, never both.  Of an empty column they are \<open>nan\<close>.
\<close>

fun cell_le :: "date_cell \<Rightarrow> date_cell \<Rightarrow> bool" where
  "cell_le (DateStr a) (DateStr b) = (a \<le> b)"
| "cell_le (Timestamp a) (Timestamp b) = (a \<le> b)"
| "cell_le _ _ = False"

fun col_min :: "date_cell list \<Rightarrow> date_cell option" where
  "col_min [] = None"
| "col_min (c # cs) =
     (case col_min cs of None \<Rightarrow> Some c | Some m \<Rightarrow> Some (if cell_le c m then c else m))"

fun col_max :: "date_cell list \<Rightarrow> date_cell option" where
  "col_max [] = None"
| "col_max (c # cs) =
     (case col_max cs of None \<Rightarrow> Some c | Some m \<Rightarrow> Some (if cell_le m c then c else m))"

text \<open>The loop \<open>for id in ids\<close> over the charts.\<close>

fun graph_all :: "string list \<Rightarrow> crypto \<Rightarrow> effect list \<times> crypto" where
  "graph_all [] self = ([], self)"
| "graph_all (cid # ids) self =
     (case comparison_graph cid metric Close_col self of
        (out, self) \<Rightarrow> (case graph_all ids self of (outs, self) \<Rightarrow> (out @ outs, self)))"

text \<open>
  \<open>run_script(ids, days)\<close>: build the index, fetch the benchmark from the first to the
  last date of the index, merge, write the merged table, draw one chart per asset.  With
  an empty index table the range is \<open>nan\<close> to \<open>nan\<close>, which the benchmark fetch rejects.
\<close>

definition run_script ::
  "(string \<Rightarrow> string option \<Rightarrow> error + coin_data)
    \<Rightarrow> (date_cell \<Rightarrow> date_cell \<Rightarrow> error + nasdaq_row list)
    \<Rightarrow> string list \<Rightarrow> string option \<Rightarrow> crypto \<Rightarrow> (error + effect list) \<times> crypto" where
  "run_script coingekko_download history ids days self =
     (case data_transform coingekko_download ids days self of
        (Inl e, self) \<Rightarrow> (Inl e, self)
      | (Inr _, self) \<Rightarrow>
          (case (col_min (map date (df self)), col_max (map date (df self))) of
             (Some start_date, Some end_date) \<Rightarrow>
               (case nasdaq_data_transform history start_date end_date self of
                  (Inl e, self) \<Rightarrow> (Inl e, self)
                | (Inr _, self) \<Rightarrow>
                    (case graph_all ids self of
                       (outs, self') \<Rightarrow> (Inr (To_csv (merged_df self) # outs), self')))
           | _ \<Rightarrow> (Inl AttributeError, self)))"

section \<open>The benchmark source\<close>

text \<open>
  How yfinance reads a start or an end date: a \<open>YYYY-MM-DD\<close> string is parsed, a
  timestamp is taken as it is.
\<close>

definition parse_user_dt :: "date_cell \<Rightarrow> error + int" where
  "parse_user_dt c =
     (case c of
        Timestamp t \<Rightarrow> Inr t
      | DateStr s \<Rightarrow>
          (case parse_ymd s of
             None \<Rightarrow> Inl ValueError
           | Some d \<Rightarrow> if valid_ymd d then Inr (ymd2ord d - EPOCH_ORD) else Inl ValueError))"

text \<open>
  \<open>Ticker.history(start, end)\<close> of yfinance, as its documentation states it: the start
  date is inclusive and the end date is exclusive (for \<open>end="2023-01-01"\<close> the last data
  point is on 2022-12-31).  \<open>ixic\<close> is the whole daily series that the service holds.
\<close>

definition yf_history :: "nasdaq_row list \<Rightarrow> date_cell \<Rightarrow> date_cell \<Rightarrow> error + nasdaq_row list" where
  "yf_history ixic start_date end_date =
     (case parse_user_dt start_date of
        Inl e \<Rightarrow> Inl e
      | Inr s \<Rightarrow>
          (case parse_user_dt end_date of
             Inl e \<Rightarrow> Inl e
           | Inr e \<Rightarrow> Inr (filter (\<lambda>b. s \<le> Date b \<and> Date b < e) ixic)))"

section \<open>Notions used to state the properties\<close>

text \<open>What the loop writes into a row of a date whose total is \<open>t\<close>.\<close>

definition set_weight :: "real \<Rightarrow> 'd index_row \<Rightarrow> 'd index_row" where
  "set_weight t row =
     row\<lparr>weight := py_truediv (market_cap row) t,
         index := fmul (py_truediv (market_cap row) t) (Finite (price row))\<rparr>"

text \<open>
  The positions that two sequences of different lengths share: position \<open>i\<close> of the
  price sequence with position \<open>i\<close> of the market-capitalisation sequence, for every
  \<open>i\<close> below the length of the shorter one.  Each entry is the timestamp, the price, the
  market capitalisation and the asset.
\<close>

definition paired_rows :: "string \<Rightarrow> coin_data \<Rightarrow> (int \<times> real \<times> real \<times> string) list" where
  "paired_rows cid coin =
     map (\<lambda>i. (fst (prices coin ! i), snd (prices coin ! i), snd (market_caps coin ! i), cid))
       [0 ..< min (length (prices coin)) (length (market_caps coin))]"

text \<open>A row of the table built from such an entry.\<close>

definition built_from :: "date_cell index_row \<Rightarrow> int \<times> real \<times> real \<times> string \<Rightarrow> bool" where
  "built_from row x =
     (case x of (ts, p, mc, cid) \<Rightarrow>
        (case convert_timestamp ts of
           Inl _ \<Rightarrow> False
         | Inr s \<Rightarrow> date row = DateStr s \<and> price row = p \<and> market_cap row = mc \<and> coin_id row = cid))"

text \<open>The answer of a download that succeeded.\<close>

definition the_coin :: "error + coin_data \<Rightarrow> coin_data" where
  "the_coin r = (case r of Inr coin \<Rightarrow> coin | Inl _ \<Rightarrow> \<lparr>prices = [], market_caps = []\<rparr>)"

text \<open>A timestamp that \<open>convert_timestamp\<close> accepts.\<close>

definition convertible :: "int \<Rightarrow> bool" where
  "convertible ts = (case convert_timestamp ts of Inl _ \<Rightarrow> False | Inr _ \<Rightarrow> True)"

text \<open>The float quotient \<open>a / 0\<close>.\<close>

definition quotient_by_zero :: "real \<Rightarrow> pyfloat" where
  "quotient_by_zero a = (if a = 0 then NaN else if 0 < a then PosInf else NegInf)"



text \<open>The four steps of \<open>nasdaq_data_transform\<close> after the two tables are there.\<close>

definition merge_steps :: "int index_row list \<Rightarrow> nasdaq_row list \<Rightarrow> int merged_row list" where
  "merge_steps left right =
     set_metric (set_price_pct_change (sort_values_id_date (merge_inner left right)))"




section \<open>Sample data\<close>

text \<open>
  Sample data: two assets over 2024-01-02, 2024-01-03 and 2024-01-04 (the days 19724 to
  19726, all three trading days), and the benchmark rows of these days.
\<close>

definition sample_coins :: "string \<Rightarrow> string option \<Rightarrow> error + coin_data" where
  "sample_coins cid days =
     (if cid = ''bitcoin'' then
        Inr \<lparr>prices = [(1704153600000, 40000), (1704240000000, 42000), (1704326400000, 44100)],
             market_caps = [(1704153600000, 100), (1704240000000, 200), (1704326400000, 300)]\<rparr>
      else if cid = ''ethereum'' then
        Inr \<lparr>prices = [(1704153600000, 2000), (1704240000000, 2100), (1704326400000, 2310)],
             market_caps = [(1704153600000, 100), (1704240000000, 100), (1704326400000, 100)]\<rparr>
      else Inl RetrievalError)"

definition ixic_jan_2 :: nasdaq_row where
  "ixic_jan_2 = \<lparr>Date = 19724, Open = 14873, High = 14887, Low = 14682, Close = 14765, Volume = 5000\<rparr>"

definition ixic_jan_3 :: nasdaq_row where
  "ixic_jan_3 = \<lparr>Date = 19725, Open = 14641, High = 14688, Low = 14577, Close = 14592, Volume = 4500\<rparr>"

definition ixic_jan_4 :: nasdaq_row where
  "ixic_jan_4 = \<lparr>Date = 19726, Open = 14532, High = 14632, Low = 14504, Close = 14510, Volume = 4700\<rparr>"

definition sample_ixic :: "nasdaq_row list" where
  "sample_ixic = [ixic_jan_2, ixic_jan_3, ixic_jan_4]"

text \<open>An object as \<open>__init__\<close> leaves it: two empty tables and the key.\<close>

definition fresh :: crypto where
  "fresh = \<lparr>df = [], merged_df = [], API_key = ''key''\<rparr>"

text \<open>The index table of the sample data.\<close>

definition sample_table :: "date_cell index_row list" where
  "sample_table =
     [\<lparr>date = DateStr ''2024-01-02'', price = 40000, market_cap = 100, coin_id = ''bitcoin'',
       weight = Finite (1 / 2), index = Finite 20000\<rparr>,
      \<lparr>date = DateStr ''2024-01-03'', price = 42000, market_cap = 200, coin_id = ''bitcoin'',
       weight = Finite (2 / 3), index = Finite 28000\<rparr>,
      \<lparr>date = DateStr ''2024-01-04'', price = 44100, market_cap = 300, coin_id = ''bitcoin'',
       weight = Finite (3 / 4), index = Finite 33075\<rparr>,
      \<lparr>date = DateStr ''2024-01-02'', price = 2000, market_cap = 100, coin_id = ''ethereum'',
       weight = Finite (1 / 2), index = Finite 1000\<rparr>,
      \<lparr>date = DateStr ''2024-01-03'', price = 2100, market_cap = 100, coin_id = ''ethereum'',
       weight = Finite (1 / 3), index = Finite 700\<rparr>,
      \<lparr>date = DateStr ''2024-01-04'', price = 2310, market_cap = 100, coin_id = ''ethereum'',
       weight = Finite (1 / 4), index = Finite (1155 / 2)\<rparr>]"

text \<open>
  The sample index table merged with the benchmark rows of all three days, and the
  \<open>date\<close> column of the index table as timestamps.
\<close>

definition sample_merged :: "int merged_row list" where
  "sample_merged =
     [\<lparr>date = 19724, price = 40000, market_cap = 100, coin_id = ''bitcoin'',
       weight = Finite (1 / 2), index = Finite 20000, nasdaq = ixic_jan_2,
       price_pct_change = NaN, metric = NaN\<rparr>,
      \<lparr>date = 19725, price = 42000, market_cap = 200, coin_id = ''bitcoin'',
       weight = Finite (2 / 3), index = Finite 28000, nasdaq = ixic_jan_3,
       price_pct_change = Finite 5, metric = Finite (10 / 3)\<rparr>,
      \<lparr>date = 19726, price = 44100, market_cap = 300, coin_id = ''bitcoin'',
       weight = Finite (3 / 4), index = Finite 33075, nasdaq = ixic_jan_4,
       price_pct_change = Finite 5, metric = Finite (15 / 4)\<rparr>,
      \<lparr>date = 19724, price = 2000, market_cap = 100, coin_id = ''ethereum'',
       weight = Finite (1 / 2), index = Finite 1000, nasdaq = ixic_jan_2,
       price_pct_change = NaN, metric = NaN\<rparr>,
      \<lparr>date = 19725, price = 2100, market_cap = 100, coin_id = ''ethereum'',
       weight = Finite (1 / 3), index = Finite 700, nasdaq = ixic_jan_3,
       price_pct_change = Finite 5, metric = Finite (5 / 3)\<rparr>,
      \<lparr>date = 19726, price = 2310, market_cap = 100, coin_id = ''ethereum'',
       weight = Finite (1 / 4), index = Finite (1155 / 2), nasdaq = ixic_jan_4,
       price_pct_change = Finite 10, metric = Finite (5 / 2)\<rparr>]"

definition sample_timestamps :: "date_cell index_row list" where
  "sample_timestamps =
     map2 (\<lambda>row t. with_date row (Timestamp t)) sample_table
       [19724, 19725, 19726, 19724, 19725, 19726]"

text \<open>
  Further sample answers of the crypto source: an asset with three prices and two market
  capitalisations; two assets whose market capitalisations cancel on a date; an asset with
  market capitalisation zero on both of its dates.
\<close>

definition uneven_coins :: "string \<Rightarrow> string option \<Rightarrow> error + coin_data" where
  "uneven_coins cid days =
     (if cid = ''bitcoin'' then
        Inr \<lparr>prices = [(1704153600000, 40000), (1704240000000, 42000), (1704326400000, 44100)],
             market_caps = [(1704153600000, 100), (1704240000000, 200)]\<rparr>
      else Inl RetrievalError)"

definition uneven_table :: "date_cell index_row list" where
  "uneven_table =
     [\<lparr>date = DateStr ''2024-01-02'', price = 40000, market_cap = 100, coin_id = ''bitcoin'',
       weight = Finite 1, index = Finite 40000\<rparr>,
      \<lparr>date = DateStr ''2024-01-03'', price = 42000, market_cap = 200, coin_id = ''bitcoin'',
       weight = Finite 1, index = Finite 42000\<rparr>]"

definition offsetting_coins :: "string \<Rightarrow> string option \<Rightarrow> error + coin_data" where
  "offsetting_coins cid days =
     (if cid = ''alpha'' then
        Inr \<lparr>prices = [(1704153600000, 10)], market_caps = [(1704153600000, 5)]\<rparr>
      else if cid = ''beta'' then
        Inr \<lparr>prices = [(1704153600000, 20)], market_caps = [(1704153600000, - 5)]\<rparr>
      else Inl RetrievalError)"

definition offsetting_table :: "date_cell index_row list" where
  "offsetting_table =
     [\<lparr>date = DateStr ''2024-01-02'', price = 10, market_cap = 5, coin_id = ''alpha'',
       weight = PosInf, index = PosInf\<rparr>,
      \<lparr>date = DateStr ''2024-01-02'', price = 20, market_cap = - 5, coin_id = ''beta'',
       weight = NegInf, index = NegInf\<rparr>]"

definition zero_cap_coins :: "string \<Rightarrow> string option \<Rightarrow> error + coin_data" where
  "zero_cap_coins cid days =
     (if cid = ''bitcoin'' then
        Inr \<lparr>prices = [(1704153600000, 40000), (1704240000000, 42000)],
             market_caps = [(1704153600000, 0), (1704240000000, 0)]\<rparr>
      else Inl RetrievalError)"

definition zero_cap_table :: "date_cell index_row list" where
  "zero_cap_table =
     [\<lparr>date = DateStr ''2024-01-02'', price = 40000, market_cap = 0, coin_id = ''bitcoin'',
       weight = NaN, index = NaN\<rparr>,
      \<lparr>date = DateStr ''2024-01-03'', price = 42000, market_cap = 0, coin_id = ''bitcoin'',
       weight = NaN, index = NaN\<rparr>]"

text \<open>The zero-capitalisation table merged with the benchmark rows of its two days.\<close>

definition zero_cap_merged :: "int merged_row list" where
  "zero_cap_merged =
     [\<lparr>date = 19724, price = 40000, market_cap = 0, coin_id = ''bitcoin'',
       weight = NaN, index = NaN, nasdaq = ixic_jan_2,
       price_pct_change = NaN, metric = NaN\<rparr>,
      \<lparr>date = 19725, price = 42000, market_cap = 0, coin_id = ''bitcoin'',
       weight = NaN, index = NaN, nasdaq = ixic_jan_3,
       price_pct_change = Finite 5, metric = NaN\<rparr>]"



section \<open>Properties of the index builder\<close>

lemma assign_weights_map:
  "assign_weights d rows =
     map (\<lambda>row. if date row = d then set_weight (total_market_cap d rows) row else row) rows"
  by (simp add: assign_weights_def set_weight_def Let_def)

lemma set_weight_fields [simp]:
  "date (set_weight t row) = date row" "market_cap (set_weight t row) = market_cap row"
  "price (set_weight t row) = price row" "coin_id (set_weight t row) = coin_id row"
  "weight (set_weight t row) = py_truediv (market_cap row) t"
  by (simp_all add: set_weight_def)

lemma set_weight_idem [simp]: "set_weight t (set_weight t' row) = set_weight t row"
  by (simp add: set_weight_def)

lemma total_market_cap_update [simp]:
  "total_market_cap d (map (\<lambda>row. if date row = d' then set_weight t row else row) rows)
     = total_market_cap d rows"
  unfolding total_market_cap_def
  by (induction rows) auto

lemma fold_assign_weights:
  "fold assign_weights ds rows =
     map (\<lambda>row. if date row \<in> set ds then set_weight (total_market_cap (date row) rows) row else row) rows"
proof (induction ds arbitrary: rows)
  case Nil
  then show ?case by simp
next
  case (Cons d ds)
  show ?case
    by (simp add: Cons.IH) (auto simp: assign_weights_map)
qed

lemma set_unique [simp]: "set (unique xs) = set xs"
  by (simp add: unique_def)

lemma compute_weights_map:
  "compute_weights rows = map (\<lambda>row. set_weight (total_market_cap (date row) rows) row) rows"
  by (simp add: compute_weights_def fold_assign_weights)

lemma compute_weights_fields:
  "map date (compute_weights rows) = map date rows"
  "map price (compute_weights rows) = map price rows"
  "map market_cap (compute_weights rows) = map market_cap rows"
  "map coin_id (compute_weights rows) = map coin_id rows"
  by (simp_all add: compute_weights_map)

lemma total_market_cap_compute [simp]:
  "total_market_cap d (compute_weights rows) = total_market_cap d rows"
proof -
  have "map market_cap (filter (\<lambda>row. date row = d) (map (\<lambda>row. set_weight (f row) row) xs))
        = map market_cap (filter (\<lambda>row. date row = d) xs)" for f and xs :: "'a index_row list"
    by (induction xs) auto
  then show ?thesis
    by (simp add: total_market_cap_def compute_weights_map)
qed







text \<open>
  On the sample data the table has six rows, and the weights \<open>2/3\<close> and \<open>1/3\<close> of
  2024-01-03 sum to one.
\<close>

lemma sample_data_transform:
  "data_transform sample_coins [''bitcoin'', ''ethereum''] None fresh
     = (Inr sample_table, fresh\<lparr>df := sample_table\<rparr>)"
  by code_simp


subsection \<open>Sequences of different lengths\<close>

lemma paired_rows_zip:
  "paired_rows cid coin =
     map (\<lambda>(p, mc). (fst p, snd p, snd mc, cid)) (zip (prices coin) (market_caps coin))"
  unfolding paired_rows_def
  by (rule nth_equalityI) simp_all

lemma zip_rows_ok:
  assumes "\<forall>x \<in> set ps. convertible (fst (fst x))"
  shows "\<exists>rows. zip_rows cid ps = Inr rows
           \<and> list_all2 built_from rows (map (\<lambda>(p, mc). (fst p, snd p, snd mc, cid)) ps)"
  using assms
proof (induction ps)
  case Nil
  then show ?case by simp
next
  case (Cons x ps)
  obtain p mc where x: "x = (p, mc)" by (cases x)
  from Cons.prems x obtain s where s: "convert_timestamp (fst p) = Inr s"
    by (auto simp: convertible_def split: sum.splits)
  from Cons obtain rows where rows: "zip_rows cid ps = Inr rows"
    "list_all2 built_from rows (map (\<lambda>(p, mc). (fst p, snd p, snd mc, cid)) ps)"
    by auto
  have "built_from \<lparr>date = DateStr s, price = snd p, market_cap = snd mc, coin_id = cid,
                     weight = NaN, index = NaN\<rparr> (fst p, snd p, snd mc, cid)"
    by (simp add: built_from_def s)
  then show ?case
    using rows(2) by (simp add: x s rows(1))
qed

lemma collect_rows_ok:
  assumes "\<forall>cid \<in> set ids. \<exists>coin. dl cid days = Inr coin
             \<and> (\<forall>x \<in> set (paired_rows cid coin). convertible (fst x))"
  shows "\<exists>rows. collect_rows dl days ids = Inr rows
           \<and> list_all2 built_from rows (concat (map (\<lambda>cid. paired_rows cid (the_coin (dl cid days))) ids))"
  using assms
proof (induction ids)
  case Nil
  then show ?case by simp
next
  case (Cons cid ids)
  from Cons.prems obtain coin where coin: "dl cid days = Inr coin"
    and conv: "\<forall>x \<in> set (paired_rows cid coin). convertible (fst x)"
    by auto
  from conv have "\<forall>x \<in> set (zip (prices coin) (market_caps coin)). convertible (fst (fst x))"
    by (auto simp: paired_rows_zip)
  from zip_rows_ok [OF this, of cid] obtain rows where rows:
    "zip_rows cid (zip (prices coin) (market_caps coin)) = Inr rows"
    "list_all2 built_from rows (paired_rows cid coin)"
    by (auto simp: paired_rows_zip)
  from Cons obtain others where others: "collect_rows dl days ids = Inr others"
    "list_all2 built_from others (concat (map (\<lambda>cid. paired_rows cid (the_coin (dl cid days))) ids))"
    by auto
  show ?case
    using rows(2) others(2)
    by (simp add: coin rows(1) others(1) the_coin_def list_all2_appendI)
qed

lemma built_from_compute_weights:
  assumes "list_all2 built_from rows xs"
  shows "list_all2 built_from (compute_weights rows) xs"
proof -
  have "built_from (set_weight t row) x = built_from row x" for t row x
    by (simp add: built_from_def split: prod.splits sum.splits)
  then show ?thesis
    using assms by (simp add: compute_weights_map list_all2_map1)
qed

text \<open>
  Claim C6, as amended.  \<open>data_transform\<close> does not compare the lengths of the two
  sequences of an asset and raises nothing when they differ.  When every download
  succeeds and every paired timestamp is convertible, it returns a table whose rows are
  built, in order, from the positions that the price and the market-capitalisation
  sequence of each asset share: position \<open>i\<close> of the one with position \<open>i\<close> of the other,
  up to the length of the shorter.  The rest of the longer sequence is left out.
\<close>

theorem data_transform_pairs_common_prefix:
  assumes "\<forall>cid \<in> set ids. \<exists>coin. dl cid days = Inr coin
             \<and> (\<forall>x \<in> set (paired_rows cid coin). convertible (fst x))"
  shows "\<exists>table. data_transform dl ids days self = (Inr table, self\<lparr>df := table\<rparr>)
           \<and> list_all2 built_from table
                (concat (map (\<lambda>cid. paired_rows cid (the_coin (dl cid days))) ids))"
proof -
  from collect_rows_ok [of ids dl days, OF assms] obtain rows where
    "collect_rows dl days ids = Inr rows"
    "list_all2 built_from rows (concat (map (\<lambda>cid. paired_rows cid (the_coin (dl cid days))) ids))"
    by auto
  then show ?thesis
    by (simp add: data_transform_def Let_def built_from_compute_weights)
qed

text \<open>
  The claim as stated fails on an asset with three prices and two market capitalisations:
  \<open>data_transform\<close> returns a table of two rows, and no error.
\<close>

lemma uneven_data_transform:
  "data_transform uneven_coins [''bitcoin''] None fresh
     = (Inr uneven_table, fresh\<lparr>df := uneven_table\<rparr>)"
  by code_simp

theorem mismatched_lengths_counterexample:
  "uneven_coins ''bitcoin'' None
     = Inr \<lparr>prices = [(1704153600000, 40000), (1704240000000, 42000), (1704326400000, 44100)],
            market_caps = [(1704153600000, 100), (1704240000000, 200)]\<rparr>
   \<and> length (prices (the_coin (uneven_coins ''bitcoin'' None)))
       \<noteq> length (market_caps (the_coin (uneven_coins ''bitcoin'' None)))
   \<and> data_transform uneven_coins [''bitcoin''] None fresh
       = (Inr uneven_table, fresh\<lparr>df := uneven_table\<rparr>)"
  using uneven_data_transform by (simp add: uneven_coins_def the_coin_def)

theorem data_transform_pairs_common_prefix_witness:
  "data_transform uneven_coins [''bitcoin''] None fresh
     = (Inr uneven_table, fresh\<lparr>df := uneven_table\<rparr>)
   \<and> list_all2 built_from uneven_table
        [(1704153600000, 40000, 100, ''bitcoin''), (1704240000000, 42000, 200, ''bitcoin'')]"
proof -
  have pr: "paired_rows ''bitcoin'' (the_coin (uneven_coins ''bitcoin'' None))
        = [(1704153600000, 40000, 100, ''bitcoin''), (1704240000000, 42000, 200, ''bitcoin'')]"
    by code_simp
  have c1: "convertible 1704153600000" by code_simp
  have c2: "convertible 1704240000000" by code_simp
  have "\<forall>cid \<in> set [''bitcoin'']. \<exists>coin. uneven_coins cid None = Inr coin
           \<and> (\<forall>x \<in> set (paired_rows cid coin). convertible (fst x))"
    using pr c1 c2 by (simp add: uneven_coins_def the_coin_def)
  from data_transform_pairs_common_prefix [of "[''bitcoin'']" uneven_coins None fresh, OF this]
  show ?thesis
    using uneven_data_transform pr by simp
qed

subsection \<open>A total market capitalisation of zero\<close>

text \<open>
  Claim C5, as amended.  The weight loop has no guard and raises nothing: once the rows
  are collected, \<open>data_transform\<close> returns a table with the same rows, none dropped.  On
  a date whose market capitalisations sum to zero the weight of a row is the float
  quotient of its market capitalisation by zero: \<open>nan\<close> when that is zero, plus or minus
  infinity otherwise.  It is never a finite number, in particular never zero.
\<close>

theorem data_transform_zero_total_weight:
  assumes "collect_rows dl days ids = Inr rows"
  shows "\<exists>table. data_transform dl ids days self = (Inr table, self\<lparr>df := table\<rparr>)
           \<and> map date table = map date rows
           \<and> map market_cap table = map market_cap rows
           \<and> (\<forall>row \<in> set table. total_market_cap (date row) table = 0
                 \<longrightarrow> weight row = quotient_by_zero (market_cap row) \<and> \<not> is_finite (weight row))"
proof -
  let ?table = "compute_weights rows"
  have "weight row = quotient_by_zero (market_cap row) \<and> \<not> is_finite (weight row)"
    if "row \<in> set ?table" "total_market_cap (date row) ?table = 0" for row
  proof -
    from that(1) obtain r where r: "row = set_weight (total_market_cap (date r) rows) r"
      by (auto simp: compute_weights_map)
    with that(2) have "total_market_cap (date r) rows = 0" by simp
    with r show ?thesis
      by (simp add: py_truediv_def quotient_by_zero_def is_finite_def)
  qed
  then have "\<forall>row \<in> set ?table. total_market_cap (date row) ?table = 0
                 \<longrightarrow> weight row = quotient_by_zero (market_cap row) \<and> \<not> is_finite (weight row)"
    by blast
  moreover have "data_transform dl ids days self = (Inr ?table, self\<lparr>df := ?table\<rparr>)"
    using assms by (simp add: data_transform_def Let_def)
  ultimately show ?thesis
    using compute_weights_fields(1,3) by blast
qed

text \<open>
  The claim as stated fails on two assets whose market capitalisations are 5 and -5 on
  the same date: their weights are plus and minus infinity, neither an error nor a
  missing value.
\<close>

lemma offsetting_data_transform:
  "data_transform offsetting_coins [''alpha'', ''beta''] None fresh
     = (Inr offsetting_table, fresh\<lparr>df := offsetting_table\<rparr>)"
  by code_simp

theorem zero_total_weight_counterexample:
  "data_transform offsetting_coins [''alpha'', ''beta''] None fresh
     = (Inr offsetting_table, fresh\<lparr>df := offsetting_table\<rparr>)
   \<and> total_market_cap (DateStr ''2024-01-02'') offsetting_table = 0
   \<and> map weight (rows_of_date (DateStr ''2024-01-02'') offsetting_table) = [PosInf, NegInf]
   \<and> \<not> isna PosInf \<and> \<not> isna NegInf"
  using offsetting_data_transform
  by (simp add: offsetting_table_def total_market_cap_def rows_of_date_def isna_def)

lemma zero_cap_collect:
  "collect_rows zero_cap_coins None [''bitcoin'']
     = Inr (map (\<lambda>row. row\<lparr>weight := NaN, index := NaN\<rparr>) zero_cap_table)"
  by code_simp

lemma zero_cap_data_transform:
  "data_transform zero_cap_coins [''bitcoin''] None fresh
     = (Inr zero_cap_table, fresh\<lparr>df := zero_cap_table\<rparr>)"
  by code_simp

theorem data_transform_zero_total_weight_witness:
  "data_transform zero_cap_coins [''bitcoin''] None fresh
     = (Inr zero_cap_table, fresh\<lparr>df := zero_cap_table\<rparr>)
   \<and> total_market_cap (DateStr ''2024-01-02'') zero_cap_table = 0
   \<and> total_market_cap (DateStr ''2024-01-03'') zero_cap_table = 0
   \<and> map weight zero_cap_table = [NaN, NaN]
   \<and> length zero_cap_table
       = length (prices (the_coin (zero_cap_coins ''bitcoin'' None)))"
proof -
  from data_transform_zero_total_weight [OF zero_cap_collect, of fresh]
  have "\<forall>row \<in> set zero_cap_table. total_market_cap (date row) zero_cap_table = 0
          \<longrightarrow> weight row = quotient_by_zero (market_cap row)"
    by (simp add: zero_cap_data_transform)
  moreover have "total_market_cap (DateStr ''2024-01-02'') zero_cap_table = 0"
    "total_market_cap (DateStr ''2024-01-03'') zero_cap_table = 0"
    by (simp_all add: zero_cap_table_def total_market_cap_def)
  ultimately have "map weight zero_cap_table = [NaN, NaN]"
    by (simp add: zero_cap_table_def quotient_by_zero_def)
  then show ?thesis
    using zero_cap_data_transform
    by (simp add: zero_cap_table_def total_market_cap_def zero_cap_coins_def the_coin_def)
qed

section \<open>Properties of the series merger\<close>

lemma to_datetime_col_length:
  "to_datetime_col cs = Inr ts \<Longrightarrow> length ts = length cs"
  by (induction cs arbitrary: ts) (auto split: sum.splits)

lemma with_date_fields [simp]:
  "date (with_date row d) = d" "price (with_date row d) = price row"
  "market_cap (with_date row d) = market_cap row" "coin_id (with_date row d) = coin_id row"
  "weight (with_date row d) = weight row" "index (with_date row d) = index row"
  by (simp_all add: with_date_def)

lemma with_date_twice [simp]: "with_date (with_date row a) b = with_date row b"
  by (simp add: with_date_def)

lemma map2_with_date_twice:
  "map2 with_date (map2 (\<lambda>row t. with_date row (f t)) rows ts) ts = map2 with_date rows ts"
proof (induction rows arbitrary: ts)
  case Nil
  then show ?case by simp
next
  case (Cons row rows)
  then show ?case by (cases ts) simp_all
qed

lemma map_date_map2_with_date:
  "length ts = length rows \<Longrightarrow> map date (map2 with_date rows ts) = ts"
proof (induction rows arbitrary: ts)
  case Nil
  then show ?case by simp
next
  case (Cons row rows)
  then show ?case by (cases ts) simp_all
qed

lemma map_date_map2_timestamp:
  "length ts = length rows \<Longrightarrow>
     map date (map2 (\<lambda>row t. with_date row (Timestamp t)) rows ts) = map Timestamp ts"
proof (induction rows arbitrary: ts)
  case Nil
  then show ?case by simp
next
  case (Cons row rows)
  then show ?case by (cases ts) simp_all
qed

lemma nasdaq_data_transform_Inr:
  assumes "nasdaq_data_transform history s e self = (Inr merged, self')"
  shows "\<exists>nasdaq_data ts.
           yahoo_download history s e = Inr nasdaq_data
         \<and> to_datetime_col (map date (df self)) = Inr ts
         \<and> length ts = length (df self)
         \<and> merged = merge_steps (map2 with_date (df self) ts) nasdaq_data
         \<and> self' = self\<lparr>df := map2 (\<lambda>row t. with_date row (Timestamp t)) (df self) ts,
                         merged_df := merged\<rparr>"
  using assms
  by (auto simp: nasdaq_data_transform_def Let_def merge_steps_def map2_with_date_twice
      to_datetime_col_length split: sum.splits if_splits)

lemma join_row_fields [simp]:
  "date (join_row row b) = date row" "price (join_row row b) = price row"
  "coin_id (join_row row b) = coin_id row" "weight (join_row row b) = weight row"
  "nasdaq (join_row row b) = b"
  by (simp_all add: join_row_def)

lemma length_pct_change [simp]: "length (pct_change prev xs) = length xs"
  by (induction xs arbitrary: prev) auto

lemma map_map2_same:
  assumes "length ys = length xs" "\<And>x y. f (g x y) = f x"
  shows "map f (map2 g xs ys) = map f xs"
  by (rule nth_equalityI) (simp_all add: assms)

lemma length_set_price_pct_change [simp]:
  "length (set_price_pct_change rows) = length rows"
  by (simp add: set_price_pct_change_def)

lemma set_price_pct_change_fields [simp]:
  "map date (set_price_pct_change rows) = map date rows"
  "map coin_id (set_price_pct_change rows) = map coin_id rows"
  "map price (set_price_pct_change rows) = map price rows"
  "map weight (set_price_pct_change rows) = map weight rows"
  "map nasdaq (set_price_pct_change rows) = map nasdaq rows"
  unfolding set_price_pct_change_def
  by (rule map_map2_same; simp)+

lemma set_metric_fields [simp]:
  "length (set_metric rows) = length rows"
  "map date (set_metric rows) = map date rows"
  "map coin_id (set_metric rows) = map coin_id rows"
  "map price (set_metric rows) = map price rows"
  "map weight (set_metric rows) = map weight rows"
  "map nasdaq (set_metric rows) = map nasdaq rows"
  "map price_pct_change (set_metric rows) = map price_pct_change rows"
  by (simp_all add: set_metric_def)

lemma merge_inner_dates:
  "set (map date (merge_inner left right)) \<subseteq> set (map date left) \<inter> set (map Date right)"
  by (auto simp: merge_inner_def intro: rev_image_eqI)

lemma merge_inner_keys:
  "\<forall>row \<in> set (merge_inner left right). Date (nasdaq row) = date row"
  by (auto simp: merge_inner_def)

lemma merge_steps_dates:
  "set (map date (merge_steps left right)) \<subseteq> set (map date left) \<inter> set (map Date right)"
proof -
  have "set (map date (merge_steps left right)) = set (map date (merge_inner left right))"
    by (simp add: merge_steps_def sort_values_id_date_def)
  then show ?thesis
    using merge_inner_dates by blast
qed

lemma merged_dates_subset:
  assumes "nasdaq_data_transform history start_date end_date self = (Inr merged, self')"
  shows "\<exists>nasdaq_data ts.
           yahoo_download history start_date end_date = Inr nasdaq_data
         \<and> to_datetime_col (map date (df self)) = Inr ts
         \<and> map date (df self') = map Timestamp ts
         \<and> merged_df self' = merged
         \<and> set (map date merged) \<subseteq> set (map Date nasdaq_data) \<inter> set ts"
proof -
  from nasdaq_data_transform_Inr [OF assms] obtain nasdaq_data ts where h:
    "yahoo_download history start_date end_date = Inr nasdaq_data"
    "to_datetime_col (map date (df self)) = Inr ts"
    "length ts = length (df self)"
    "merged = merge_steps (map2 with_date (df self) ts) nasdaq_data"
    "self' = self\<lparr>df := map2 (\<lambda>row t. with_date row (Timestamp t)) (df self) ts,
                    merged_df := merged\<rparr>"
    by blast
  have "set (map date merged)
          \<subseteq> set (map date (map2 with_date (df self) ts)) \<inter> set (map Date nasdaq_data)"
    unfolding h(4) by (rule merge_steps_dates)
  then have "set (map date merged) \<subseteq> set (map Date nasdaq_data) \<inter> set ts"
    unfolding map_date_map2_with_date [OF h(3)] by blast
  moreover have "map date (df self') = map Timestamp ts"
    using map_date_map2_timestamp [OF h(3)] by (simp add: h(5))
  moreover have "merged_df self' = merged"
    using h(5) by simp
  ultimately show ?thesis
    using h(1,2) by blast
qed

text \<open>
  Claim C3.  Whatever the benchmark source answers, every date of the table that
  \<open>nasdaq_data_transform\<close> returns (and stores in \<open>merged_df\<close>) is a date of the fetched
  benchmark table and a date of the index table, the latter read as timestamps.
\<close>

theorem nasdaq_data_transform_inner_join:
  assumes "nasdaq_data_transform history start_date end_date self = (Inr merged, self')"
  shows "\<exists>nasdaq_data ts.
           yahoo_download history start_date end_date = Inr nasdaq_data
         \<and> to_datetime_col (map date (df self)) = Inr ts
         \<and> map date (df self') = map Timestamp ts
         \<and> merged_df self' = merged
         \<and> set (map date merged) \<subseteq> set (map Date nasdaq_data) \<inter> set ts"
  using assms by (rule merged_dates_subset)



theorem nasdaq_data_transform_inner_join_witness:
  "nasdaq_data_transform (yf_history sample_ixic) (DateStr ''2024-01-02'') (DateStr ''2024-01-04'')
     (fresh\<lparr>df := zero_cap_table\<rparr>)
     = (Inr zero_cap_merged,
        fresh\<lparr>df := map2 (\<lambda>row t. with_date row (Timestamp t)) zero_cap_table [19724, 19725],
              merged_df := zero_cap_merged\<rparr>)
   \<and> yahoo_download (yf_history sample_ixic) (DateStr ''2024-01-02'') (DateStr ''2024-01-04'')
       = Inr [ixic_jan_2, ixic_jan_3]
   \<and> to_datetime_col (map date zero_cap_table) = Inr [19724, 19725]
   \<and> set (map date zero_cap_merged) \<subseteq> {19724, 19725} \<inter> {19724, 19725}"
proof -
  have run: "nasdaq_data_transform (yf_history sample_ixic) (DateStr ''2024-01-02'')
      (DateStr ''2024-01-04'') (fresh\<lparr>df := zero_cap_table\<rparr>)
     = (Inr zero_cap_merged,
        fresh\<lparr>df := map2 (\<lambda>row t. with_date row (Timestamp t)) zero_cap_table [19724, 19725],
              merged_df := zero_cap_merged\<rparr>)"
    by code_simp
  have y: "yahoo_download (yf_history sample_ixic) (DateStr ''2024-01-02'') (DateStr ''2024-01-04'')
       = Inr [ixic_jan_2, ixic_jan_3]"
    by code_simp
  have t: "to_datetime_col (map date (df (fresh\<lparr>df := zero_cap_table\<rparr>))) = Inr [19724, 19725]"
    by code_simp
  from nasdaq_data_transform_inner_join [OF run]
  have "set (map date zero_cap_merged)
          \<subseteq> set (map Date [ixic_jan_2, ixic_jan_3]) \<inter> set [19724, 19725]"
    unfolding y t by simp
  then show ?thesis
    using run y t by (simp add: sample_ixic_def)
qed

subsection \<open>Percentage change and metric\<close>






lemma fst_le_of_pair_le:
  fixes a c :: string and b d :: int
  shows "(a, b) \<le> (c, d) \<Longrightarrow> a \<le> c"
  by (auto simp: less_eq_prod_def)












section \<open>Properties of the presenter\<close>

text \<open>
  Claim C8.  With an empty \<open>merged_df\<close>, \<open>comparison_graph\<close> prints its message and
  returns: nothing is drawn, whatever the asset and the two columns are, and the object
  is as before.
\<close>

theorem comparison_graph_empty:
  assumes "merged_df self = []"
  shows "comparison_graph cid left_metric right_metric self
           = ([Print ''No merged data available. Please run data_transform first.''], self)"
  using assms by (simp add: comparison_graph_def)

theorem comparison_graph_empty_witness:
  "merged_df fresh = []
   \<and> comparison_graph ''bitcoin'' metric Close_col fresh
       = ([Print ''No merged data available. Please run data_transform first.''], fresh)"
  using comparison_graph_empty [of fresh "''bitcoin''" metric Close_col]
  by (simp add: fresh_def)







text \<open>
  Claim C10.  \<open>data_transform\<close> changes the field \<open>df\<close> of the object and nothing else,
  whether it returns or raises; in particular \<open>merged_df\<close> is as before.
  \<open>comparison_graph\<close> leaves the whole object as it is.
\<close>

theorem data_transform_comparison_graph_frame:
  "snd (data_transform dl ids days self)
     = self\<lparr>df := df (snd (data_transform dl ids days self))\<rparr>
   \<and> merged_df (snd (data_transform dl ids days self)) = merged_df self
   \<and> snd (comparison_graph cid left_metric right_metric self) = self"
  by (simp add: data_transform_def comparison_graph_def Let_def split: sum.splits)

theorem data_transform_comparison_graph_frame_witness:
  "snd (data_transform sample_coins [''bitcoin'', ''ethereum''] None
          (fresh\<lparr>df := sample_timestamps, merged_df := sample_merged\<rparr>))
     = fresh\<lparr>df := sample_table, merged_df := sample_merged\<rparr>
   \<and> snd (comparison_graph ''bitcoin'' metric Close_col
          (fresh\<lparr>df := sample_timestamps, merged_df := sample_merged\<rparr>))
     = fresh\<lparr>df := sample_timestamps, merged_df := sample_merged\<rparr>"
proof -
  let ?self = "fresh\<lparr>df := sample_timestamps, merged_df := sample_merged\<rparr>"
  have "df (snd (data_transform sample_coins [''bitcoin'', ''ethereum''] None ?self)) = sample_table"
    by code_simp
  with data_transform_comparison_graph_frame
    [of sample_coins "[''bitcoin'', ''ethereum'']" None ?self "''bitcoin''" metric Close_col]
  show ?thesis by simp
qed

section \<open>Properties of the timestamp normaliser\<close>















section \<open>Properties of the pipeline\<close>

lemma to_datetime_parse_user_dt:
  "to_datetime c = Inr t \<Longrightarrow> parse_user_dt c = Inr t"
  by (auto simp: to_datetime_def parse_user_dt_def Let_def split: date_cell.splits option.splits if_splits)

lemma comparison_graph_state: "snd (comparison_graph cid left_metric right_metric s) = s"
  by (simp add: comparison_graph_def Let_def)

lemma graph_all_state: "snd (graph_all ids s) = s"
proof (induction ids arbitrary: s)
  case Nil
  then show ?case by simp
next
  case (Cons cid ids)
  obtain out s1 where c: "comparison_graph cid metric Close_col s = (out, s1)"
    by (cases "comparison_graph cid metric Close_col s")
  with comparison_graph_state [of cid metric Close_col s] have s1: "s1 = s" by simp
  obtain outs s2 where g: "graph_all ids s1 = (outs, s2)"
    by (cases "graph_all ids s1")
  with Cons.IH [of s1] have "s2 = s1" by simp
  with c g s1 show ?case by simp
qed

text \<open>
  Claim C4.  \<open>run_script\<close> passes the least and the greatest date of the index table as
  start and end of the benchmark fetch.  The benchmark source takes the end date as
  exclusive, so the claim does not hold: whenever \<open>run_script\<close> returns, the day of the
  greatest date of the index table is the date of no row of \<open>merged_df\<close>, also when the
  benchmark has a row for that day.
\<close>

theorem run_script_misses_last_day:
  assumes "run_script coingekko_download (yf_history ixic) ids days self = (Inr outs, self')"
  shows "\<exists>end_date last_day.
           col_max (map date (df (snd (data_transform coingekko_download ids days self)))) = Some end_date
         \<and> parse_user_dt end_date = Inr last_day
         \<and> last_day \<notin> set (map date (merged_df self'))"
proof -
  obtain r s1 where dt: "data_transform coingekko_download ids days self = (r, s1)"
    by (cases "data_transform coingekko_download ids days self")
  from assms dt obtain start_date end_date merged s2 where
    mx: "col_max (map date (df s1)) = Some end_date"
    and nd: "nasdaq_data_transform (yf_history ixic) start_date end_date s1 = (Inr merged, s2)"
    and gr: "snd (graph_all ids s2) = self'"
    by (auto simp: run_script_def split: sum.splits option.splits prod.splits)
  from gr have s2: "self' = s2" by (simp add: graph_all_state)
  from merged_dates_subset [OF nd] obtain nasdaq_data ts where
    y: "yahoo_download (yf_history ixic) start_date end_date = Inr nasdaq_data"
    and m: "merged_df s2 = merged"
    and sub: "set (map date merged) \<subseteq> set (map Date nasdaq_data) \<inter> set ts"
    by blast
  from y obtain last_day where e: "parse_user_dt end_date = Inr last_day"
    and before: "\<forall>b \<in> set nasdaq_data. Date b < last_day"
    by (auto simp: yahoo_download_def yf_history_def split: sum.splits)
  have "last_day \<notin> set (map date merged)"
  proof
    assume "last_day \<in> set (map date merged)"
    with sub have "last_day \<in> set (map Date nasdaq_data)" by blast
    then obtain b where "b \<in> set nasdaq_data" "Date b = last_day" by auto
    with before show False by auto
  qed
  with mx e show ?thesis
    by (simp add: dt s2 m)
qed

text \<open>
  On the sample data the index table ends on 2024-01-04, a trading day with a benchmark
  row; the merged table and the charts end on 2024-01-03.
\<close>

theorem run_script_misses_last_day_witness:
  "fst (run_script sample_coins (yf_history sample_ixic) [''bitcoin'', ''ethereum''] None fresh)
     = Inr [To_csv (filter (\<lambda>row. date row \<noteq> 19726) sample_merged),
            Show [(19724, Finite 0, Finite 14765), (19725, Finite (10 / 3), Finite 14592)],
            Show [(19724, Finite 0, Finite 14765), (19725, Finite (5 / 3), Finite 14592)]]
   \<and> merged_df (snd (run_script sample_coins (yf_history sample_ixic) [''bitcoin'', ''ethereum''] None fresh))
     = filter (\<lambda>row. date row \<noteq> 19726) sample_merged
   \<and> col_max (map date sample_table) = Some (DateStr ''2024-01-04'')
   \<and> parse_user_dt (DateStr ''2024-01-04'') = Inr 19726
   \<and> ixic_jan_4 \<in> set sample_ixic \<and> Date ixic_jan_4 = 19726
   \<and> 19726 \<notin> set (map date
        (merged_df (snd (run_script sample_coins (yf_history sample_ixic) [''bitcoin'', ''ethereum''] None fresh))))"
proof -
  let ?run = "run_script sample_coins (yf_history sample_ixic) [''bitcoin'', ''ethereum''] None fresh"
  have out: "fst ?run
     = Inr [To_csv (filter (\<lambda>row. date row \<noteq> 19726) sample_merged),
            Show [(19724, Finite 0, Finite 14765), (19725, Finite (10 / 3), Finite 14592)],
            Show [(19724, Finite 0, Finite 14765), (19725, Finite (5 / 3), Finite 14592)]]"
    by code_simp
  have mg: "merged_df (snd ?run) = filter (\<lambda>row. date row \<noteq> 19726) sample_merged"
    by code_simp
  have mx: "col_max (map date sample_table) = Some (DateStr ''2024-01-04'')"
    by code_simp
  have pu: "parse_user_dt (DateStr ''2024-01-04'') = Inr 19726"
    by code_simp
  have "?run = (fst ?run, snd ?run)" by simp
  from run_script_misses_last_day [OF this [unfolded out]]
  have "19726 \<notin> set (map date (merged_df (snd ?run)))"
    by (simp add: sample_data_transform mx pu)
  then show ?thesis
    using out mg mx pu by (simp add: sample_ixic_def ixic_jan_4_def)
qed

end
